theory Spec2Isabelle
  imports Complex_Main "HOL-Library.Sublist"
begin

section \<open>Collateral optimisation: the model builder and the result extractor\<close>

text \<open>
  The program is the single function \<open>run\<close> of \<open>src/main.py\<close>. It reads four lists of
  entries out of \<open>input_data\<close>, builds a linear program with the pulp library, hands it to a
  solver and turns the solver's answer into the output document.

  Numbers are modelled as \<^typ>\<open>real\<close> (Python's numbers without rounding), identifiers as
  strings. pulp and the solver are external to the repository: a linear expression is
  modelled as the list of its terms in the order the generator yields them, a problem as
  the data handed to it, and the solver as a parameter. Where pulp refuses what the
  program hands it, or answers \<open>None\<close>, the model says so: see the sections on what pulp
  refuses and on the result.
\<close>

subsection \<open>Input entities\<close>

type_synonym ident = string

text \<open>
  Every entry is a Python dict read with \<open>entry["key"]\<close>; a field holds \<open>None\<close> when the
  key is missing from the dict. The two key fields occur in several kinds of entry, so the
  haircut and limit entries carry a prefix.
\<close>

record asset =
  asset_id :: "ident option"
  available_quantity :: "real option"
  market_value :: "real option"
  tier_rating :: "real option"

record account =
  account_id :: "ident option"
  collateral_requirement :: "real option"

record haircut_entry =
  h_asset_id :: "ident option"
  h_account_id :: "ident option"
  haircut :: "real option"

record limit_entry =
  l_asset_id :: "ident option"
  l_account_id :: "ident option"
  max_allocation :: "real option"

text \<open>The top-level document; a list is \<open>None\<close> when its key is missing.\<close>

record input_data =
  assets :: "asset list option"
  accounts :: "account list option"
  haircut_matrix :: "haircut_entry list option"
  limit_matrix :: "limit_entry list option"

subsection \<open>Errors\<close>

text \<open>
  \<open>KeyError k\<close> is Python's exception for a missing dict key, \<open>PulpError\<close> is pulp's
  exception for a constraint it refuses, and \<open>PulpSolverError\<close> stands for whatever the
  solver raises; \<open>run\<close> catches none of them.
\<close>

datatype error = KeyError string | PulpError | PulpSolverError

definition get_default :: "'a option \<Rightarrow> 'a \<Rightarrow> 'a" where
  \<comment> \<open>\<open>d.get(key, default)\<close>, the lookup already done\<close>
  "get_default v d = (case v of None \<Rightarrow> d | Some x \<Rightarrow> x)"

definition field :: "'a option \<Rightarrow> string \<Rightarrow> error + 'a" where
  \<comment> \<open>\<open>entry["key"]\<close>\<close>
  "field v key = (case v of None \<Rightarrow> Inl (KeyError key) | Some x \<Rightarrow> Inr x)"

definition subscript :: "(ident \<rightharpoonup> 'v) \<Rightarrow> ident \<Rightarrow> error + 'v" where
  \<comment> \<open>\<open>d[k]\<close> on a dict keyed by identifiers\<close>
  "subscript d k = (case d k of None \<Rightarrow> Inl (KeyError k) | Some v \<Rightarrow> Inr v)"

fun traverse :: "('a \<Rightarrow> error + 'b) \<Rightarrow> 'a list \<Rightarrow> error + 'b list" where
  \<comment> \<open>a list comprehension or generator whose element expression may raise\<close>
  "traverse f [] = Inr []"
| "traverse f (x # xs) =
     (case f x of
        Inl e \<Rightarrow> Inl e
      | Inr y \<Rightarrow> (case traverse f xs of Inl e \<Rightarrow> Inl e | Inr ys \<Rightarrow> Inr (y # ys)))"

fun dict_comprehension ::
  "('a \<Rightarrow> error + 'k) \<Rightarrow> ('a \<Rightarrow> error + 'v) \<Rightarrow> 'a list \<Rightarrow> ('k \<rightharpoonup> 'v) \<Rightarrow> error + ('k \<rightharpoonup> 'v)" where
  \<comment> \<open>\<open>{key(x): val(x) for x in xs}\<close>: a later entry overwrites an earlier one\<close>
  "dict_comprehension key val [] d = Inr d"
| "dict_comprehension key val (x # xs) d =
     (case key x of
        Inl e \<Rightarrow> Inl e
      | Inr k \<Rightarrow>
         (case val x of
            Inl e \<Rightarrow> Inl e
          | Inr v \<Rightarrow> dict_comprehension key val xs (d(k \<mapsto> v))))"

subsection \<open>Parsing (lines 27 to 55)\<close>

type_synonym var = "ident \<times> ident"

record parsed =
  I :: "ident list"
  Q_i :: "ident \<rightharpoonup> real"
  V_i :: "ident \<rightharpoonup> real"
  omega_i :: "ident \<rightharpoonup> real"
  J :: "ident list"
  C_j :: "ident \<rightharpoonup> real"
  H_ij :: "var \<rightharpoonup> real"
  L_ij :: "var \<rightharpoonup> real"

fun haircut_loop :: "haircut_entry list \<Rightarrow> (var \<rightharpoonup> real) \<Rightarrow> error + (var \<rightharpoonup> real)" where
  "haircut_loop [] H = Inr H"
| "haircut_loop (entry # rest) H =
     (case field (h_asset_id entry) ''asset_id'' of
        Inl e \<Rightarrow> Inl e
      | Inr a \<Rightarrow>
         (case field (h_account_id entry) ''account_id'' of
            Inl e \<Rightarrow> Inl e
          | Inr b \<Rightarrow>
             (case field (haircut entry) ''haircut'' of
                Inl e \<Rightarrow> Inl e
              | Inr h \<Rightarrow> haircut_loop rest (H((a, b) \<mapsto> h)))))"

fun limit_loop :: "limit_entry list \<Rightarrow> (var \<rightharpoonup> real) \<Rightarrow> error + (var \<rightharpoonup> real)" where
  "limit_loop [] L = Inr L"
| "limit_loop (entry # rest) L =
     (case field (l_asset_id entry) ''asset_id'' of
        Inl e \<Rightarrow> Inl e
      | Inr a \<Rightarrow>
         (case field (l_account_id entry) ''account_id'' of
            Inl e \<Rightarrow> Inl e
          | Inr b \<Rightarrow>
             (case field (max_allocation entry) ''max_allocation'' of
                Inl e \<Rightarrow> Inl e
              | Inr m \<Rightarrow> limit_loop rest (L((a, b) \<mapsto> m)))))"

definition asset_key :: "asset \<Rightarrow> error + ident" where
  "asset_key a = field (asset_id a) ''asset_id''"

definition account_key :: "account \<Rightarrow> error + ident" where
  "account_key a = field (account_id a) ''account_id''"

definition parse_assets ::
  "asset list \<Rightarrow> error + (ident list \<times> (ident \<rightharpoonup> real) \<times> (ident \<rightharpoonup> real) \<times> (ident \<rightharpoonup> real))" where
  "parse_assets as =
     (case traverse asset_key as of
        Inl e \<Rightarrow> Inl e
      | Inr ids \<Rightarrow>
     (case dict_comprehension asset_key
             (\<lambda>a. field (available_quantity a) ''available_quantity'') as Map.empty of
        Inl e \<Rightarrow> Inl e
      | Inr q \<Rightarrow>
     (case dict_comprehension asset_key
             (\<lambda>a. field (market_value a) ''market_value'') as Map.empty of
        Inl e \<Rightarrow> Inl e
      | Inr v \<Rightarrow>
     (case dict_comprehension asset_key
             (\<lambda>a. field (tier_rating a) ''tier_rating'') as Map.empty of
        Inl e \<Rightarrow> Inl e
      | Inr w \<Rightarrow> Inr (ids, q, v, w)))))"

definition parse_accounts :: "account list \<Rightarrow> error + (ident list \<times> (ident \<rightharpoonup> real))" where
  "parse_accounts acs =
     (case traverse account_key acs of
        Inl e \<Rightarrow> Inl e
      | Inr ids \<Rightarrow>
     (case dict_comprehension account_key
             (\<lambda>a. field (collateral_requirement a) ''collateral_requirement'') acs Map.empty of
        Inl e \<Rightarrow> Inl e
      | Inr c \<Rightarrow> Inr (ids, c)))"

definition parse_input :: "input_data \<Rightarrow> error + parsed" where
  "parse_input input =
     (case parse_assets (get_default (assets input) []) of
        Inl e \<Rightarrow> Inl e
      | Inr (ids, q, v, w) \<Rightarrow>
     (case parse_accounts (get_default (accounts input) []) of
        Inl e \<Rightarrow> Inl e
      | Inr (jds, c) \<Rightarrow>
     (case haircut_loop (get_default (haircut_matrix input) []) Map.empty of
        Inl e \<Rightarrow> Inl e
      | Inr h \<Rightarrow>
     (case limit_loop (get_default (limit_matrix input) []) Map.empty of
        Inl e \<Rightarrow> Inl e
      | Inr l \<Rightarrow>
          Inr \<lparr>I = ids, Q_i = q, V_i = v, omega_i = w, J = jds, C_j = c,
               H_ij = h, L_ij = l\<rparr>))))"

subsection \<open>The linear program (lines 62 to 86)\<close>

text \<open>
  A variable \<open>Q_vars[(i, j)]\<close> is identified with its index pair; every variable is
  continuous with lower bound 0 and no upper bound. A right-hand side is a Python float,
  which \<open>float('inf')\<close> is too.
\<close>

datatype bound = Finite real | Infinity

datatype sense = LE | GE

type_synonym lin_expr = "(var \<times> real) list"

record lp_constraint =
  cname :: string
  lhs :: lin_expr
  csense :: sense
  rhs :: bound

record lp_problem =
  variables :: "var list"
  objective :: lin_expr
  constraints :: "lp_constraint list"

definition objective_term :: "parsed \<Rightarrow> var \<Rightarrow> error + (var \<times> real)" where
  \<comment> \<open>\<open>omega_i[i] * Q_vars[(i, j)] * V_i[i] * H_ij.get((i, j), 1)\<close>\<close>
  "objective_term p = (\<lambda>(i, j).
     (case subscript (omega_i p) i of
        Inl e \<Rightarrow> Inl e
      | Inr w \<Rightarrow>
         (case subscript (V_i p) i of
            Inl e \<Rightarrow> Inl e
          | Inr v \<Rightarrow> Inr ((i, j), w * v * get_default (H_ij p (i, j)) 1))))"

definition collateral_term :: "parsed \<Rightarrow> ident \<Rightarrow> ident \<Rightarrow> error + (var \<times> real)" where
  \<comment> \<open>\<open>Q_vars[(i, j)] * V_i[i] * H_ij.get((i, j), 1)\<close>\<close>
  "collateral_term p j i =
     (case subscript (V_i p) i of
        Inl e \<Rightarrow> Inl e
      | Inr v \<Rightarrow> Inr ((i, j), v * get_default (H_ij p (i, j)) 1))"

definition add_constraint :: "lp_problem \<Rightarrow> lp_constraint \<Rightarrow> lp_problem" where
  \<comment> \<open>\<open>prob += constraint, name\<close>; what pulp makes of the constraint is \<open>pulp_accepts\<close> below\<close>
  "add_constraint prob c = prob\<lparr>constraints := constraints prob @ [c]\<rparr>"

fun collateral_requirements :: "parsed \<Rightarrow> ident list \<Rightarrow> lp_problem \<Rightarrow> error + lp_problem" where
  "collateral_requirements p [] prob = Inr prob"
| "collateral_requirements p (j # js) prob =
     (case traverse (collateral_term p j) (I p) of
        Inl e \<Rightarrow> Inl e
      | Inr ts \<Rightarrow>
         (case subscript (C_j p) j of
            Inl e \<Rightarrow> Inl e
          | Inr c \<Rightarrow>
              collateral_requirements p js
                (add_constraint prob
                   \<lparr>cname = ''Collateral_Requirement_Account_'' @ j, lhs = ts,
                    csense = GE, rhs = Finite c\<rparr>)))"

fun asset_quantity_limits :: "parsed \<Rightarrow> ident list \<Rightarrow> lp_problem \<Rightarrow> error + lp_problem" where
  "asset_quantity_limits p [] prob = Inr prob"
| "asset_quantity_limits p (i # is) prob =
     (case subscript (Q_i p) i of
        Inl e \<Rightarrow> Inl e
      | Inr q \<Rightarrow>
          asset_quantity_limits p is
            (add_constraint prob
               \<lparr>cname = ''Asset_Quantity_Limit_Asset_'' @ i,
                lhs = map (\<lambda>j. ((i, j), 1)) (J p), csense = LE, rhs = Finite q\<rparr>))"

fun allocation_limits_of_asset ::
  "parsed \<Rightarrow> ident \<Rightarrow> ident list \<Rightarrow> lp_problem \<Rightarrow> error + lp_problem" where
  "allocation_limits_of_asset p i [] prob = Inr prob"
| "allocation_limits_of_asset p i (j # js) prob =
     (case subscript (V_i p) i of
        Inl e \<Rightarrow> Inl e
      | Inr v \<Rightarrow>
          allocation_limits_of_asset p i js
            (add_constraint prob
               \<lparr>cname = ''Allocation_Limit_Asset_'' @ i @ ''_Account_'' @ j,
                lhs = [((i, j), v)], csense = LE,
                rhs = get_default (map_option Finite (L_ij p (i, j))) Infinity\<rparr>))"

fun allocation_limits :: "parsed \<Rightarrow> ident list \<Rightarrow> lp_problem \<Rightarrow> error + lp_problem" where
  "allocation_limits p [] prob = Inr prob"
| "allocation_limits p (i # is) prob =
     (case allocation_limits_of_asset p i (J p) prob of
        Inl e \<Rightarrow> Inl e
      | Inr prob' \<Rightarrow> allocation_limits p is prob')"

definition build_model :: "parsed \<Rightarrow> error + lp_problem" where
  "build_model p =
     (let Q_vars = List.product (I p) (J p) in
      case traverse (objective_term p) (List.product (I p) (J p)) of
        Inl e \<Rightarrow> Inl e
      | Inr obj \<Rightarrow>
     (case collateral_requirements p (J p)
             \<lparr>variables = Q_vars, objective = obj, constraints = []\<rparr> of
        Inl e \<Rightarrow> Inl e
      | Inr prob1 \<Rightarrow>
     (case asset_quantity_limits p (I p) prob1 of
        Inl e \<Rightarrow> Inl e
      | Inr prob2 \<Rightarrow> allocation_limits p (I p) prob2)))"

subsection \<open>What pulp refuses\<close>

text \<open>
  pulp is not part of the repository. Its current release refuses two things that the
  lines 76 to 86 can hand it, each time with a \<open>PulpError\<close>: a constraint whose right-hand
  side is infinite, refused when line 86 builds it, and a constraint whose name the problem
  has already, refused by \<open>prob += ...\<close>. Names are compared after pulp has rewritten each
  of the characters \<open>-+[] >/\<close> to an underscore. A refusal ends the call and nothing
  else, so the model lets \<open>build_model\<close> write down every constraint the loops construct
  and \<open>run\<close> apply the refusals to the whole problem, before the solver is called. (An
  older release of pulp lets the infinite right-hand side through to the solver, and the
  default solver fails on it.)
\<close>

definition legal_name :: "string \<Rightarrow> string" where
  "legal_name s = map (\<lambda>c. if c \<in> set ''-+[] >/'' then CHR ''_'' else c) s"

definition pulp_accepts :: "lp_problem \<Rightarrow> bool" where
  "pulp_accepts prob \<longleftrightarrow>
     list_all (\<lambda>c. rhs c \<noteq> Infinity) (constraints prob)
     \<and> distinct (map (\<lambda>c. legal_name (cname c)) (constraints prob))"

subsection \<open>Solving and extracting the result (lines 90 to 131)\<close>

text \<open>
  Modelled from the spec: the solver collaborator and its status constants are pulp's and
  not part of the repository. By section 6 of the specification a solver takes the linear
  program and returns a status among optimal, infeasible, unbounded and error together
  with a value for every variable; it may also fail to return, which is an exception in
  Python.
\<close>

datatype lp_status = LpStatusOptimal | LpStatusInfeasible | LpStatusUnbounded | LpStatusError

type_synonym valuation = "var \<Rightarrow> real"

datatype solver_outcome = Raises | Returns lp_status valuation

type_synonym solver = "lp_problem \<Rightarrow> solver_outcome"

record solver_params =
  solver :: "solver option"

record allocation =
  a_asset_id :: ident
  a_account_id :: ident
  allocation_fraction :: real

record result =
  allocation_matrix :: "allocation list"
  total_collateral_cost :: "real option"
  status :: "string option"

definition value_of :: "valuation \<Rightarrow> lin_expr \<Rightarrow> real" where
  \<comment> \<open>the expression at the variables' values\<close>
  "value_of q e = (\<Sum>(v, c) \<leftarrow> e. q v * c)"

text \<open>
  \<open>value(prob.objective)\<close> after \<open>prob.solve\<close>. pulp drops a product whose number is 0,
  so a term with the coefficient 0 is not in the objective. An objective left without a
  term is given pulp's variable \<open>__dummy\<close> when the problem is solved, and that variable
  gets no value; \<open>value\<close> of an expression with a variable without value is \<open>None\<close>.
\<close>

definition objective_value :: "valuation \<Rightarrow> lin_expr \<Rightarrow> real option" where
  "objective_value q e =
     (if list_all (\<lambda>(v, c). c = 0) e then None else Some (value_of q e))"

fun extract_results_of_asset :: "valuation \<Rightarrow> ident \<Rightarrow> ident list \<Rightarrow> allocation list \<Rightarrow> allocation list" where
  "extract_results_of_asset q i [] matrix = matrix"
| "extract_results_of_asset q i (j # js) matrix =
     extract_results_of_asset q i js
       (matrix @
          [\<lparr>a_asset_id = i, a_account_id = j, allocation_fraction = q (i, j)\<rparr>])"

fun extract_results :: "valuation \<Rightarrow> ident list \<Rightarrow> ident list \<Rightarrow> allocation list \<Rightarrow> allocation list" where
  "extract_results q [] js matrix = matrix"
| "extract_results q (i # is) js matrix =
     extract_results q is js (extract_results_of_asset q i js matrix)"

definition chosen_solver :: "solver \<Rightarrow> solver_params option \<Rightarrow> solver" where
  \<comment> \<open>\<open>solver_params.get("solver", PULP_CBC_CMD())\<close>, with \<open>solver_params = {}\<close> when it is \<open>None\<close>\<close>
  "chosen_solver PULP_CBC_CMD solver_params =
     get_default (solver (get_default solver_params \<lparr>solver = None\<rparr>)) PULP_CBC_CMD"

definition run :: "solver \<Rightarrow> input_data \<Rightarrow> solver_params option \<Rightarrow> error + result" where
  \<comment> \<open>the first argument is \<open>PULP_CBC_CMD()\<close>, the solver used when none is configured\<close>
  "run PULP_CBC_CMD input solver_params =
     (case parse_input input of
        Inl e \<Rightarrow> Inl e
      | Inr p \<Rightarrow>
     (case build_model p of
        Inl e \<Rightarrow> Inl e
      | Inr prob \<Rightarrow>
     if \<not> pulp_accepts prob then Inl PulpError
     else
     (case chosen_solver PULP_CBC_CMD solver_params prob of
        Raises \<Rightarrow> Inl PulpSolverError
      | Returns st q \<Rightarrow>
          if st \<noteq> LpStatusOptimal then
            Inr \<lparr>allocation_matrix = [], total_collateral_cost = None,
                 status = Some ''No optimal solution found.''\<rparr>
          else
            Inr \<lparr>allocation_matrix = extract_results q (I p) (J p) [],
                 total_collateral_cost = objective_value q (objective prob),
                 status = None\<rparr>)))"


subsection \<open>Reading the program's objects\<close>

text \<open>
  The definitions of this section are not part of the program: they say what a constraint
  means, give the shapes the specification writes for the three constraint families, and
  name the inputs that are complete.
\<close>

definition model_of :: "input_data \<Rightarrow> error + lp_problem" where
  \<comment> \<open>the linear program \<open>run\<close> hands to the solver\<close>
  "model_of input =
     (case parse_input input of
        Inl e \<Rightarrow> Inl e
      | Inr p \<Rightarrow>
         (case build_model p of
            Inl e \<Rightarrow> Inl e
          | Inr prob \<Rightarrow> if \<not> pulp_accepts prob then Inl PulpError else Inr prob))"

definition holds :: "valuation \<Rightarrow> lp_constraint \<Rightarrow> bool" where
  "holds q c =
     (case rhs c of
        Finite r \<Rightarrow> (case csense c of LE \<Rightarrow> value_of q (lhs c) \<le> r | GE \<Rightarrow> r \<le> value_of q (lhs c))
      | Infinity \<Rightarrow> (case csense c of LE \<Rightarrow> True | GE \<Rightarrow> False))"

definition cost_term :: "parsed \<Rightarrow> var \<Rightarrow> var \<times> real" where
  "cost_term p = (\<lambda>(i, j).
     ((i, j), the (omega_i p i) * the (V_i p i) * get_default (H_ij p (i, j)) 1))"

definition collateral_sufficiency :: "parsed \<Rightarrow> ident \<Rightarrow> lp_constraint" where
  "collateral_sufficiency p j =
     \<lparr>cname = ''Collateral_Requirement_Account_'' @ j,
      lhs = map (\<lambda>i. ((i, j), the (V_i p i) * get_default (H_ij p (i, j)) 1)) (I p),
      csense = GE, rhs = Finite (the (C_j p j))\<rparr>"

definition inventory_limit :: "parsed \<Rightarrow> ident \<Rightarrow> lp_constraint" where
  "inventory_limit p i =
     \<lparr>cname = ''Asset_Quantity_Limit_Asset_'' @ i,
      lhs = map (\<lambda>j. ((i, j), 1)) (J p), csense = LE, rhs = Finite (the (Q_i p i))\<rparr>"

definition pairwise_cap :: "parsed \<Rightarrow> var \<Rightarrow> lp_constraint" where
  "pairwise_cap p = (\<lambda>(i, j).
     \<lparr>cname = ''Allocation_Limit_Asset_'' @ i @ ''_Account_'' @ j,
      lhs = [((i, j), the (V_i p i))], csense = LE,
      rhs = (case L_ij p (i, j) of None \<Rightarrow> Infinity | Some m \<Rightarrow> Finite m)\<rparr>)"


definition keyed :: "parsed \<Rightarrow> bool" where
  \<comment> \<open>every identifier of \<open>I\<close> and \<open>J\<close> is a key of the dicts subscripted with it\<close>
  "keyed p \<longleftrightarrow>
     set (I p) \<subseteq> dom (Q_i p) \<and> set (I p) \<subseteq> dom (V_i p) \<and> set (I p) \<subseteq> dom (omega_i p)
     \<and> set (J p) \<subseteq> dom (C_j p)"

text \<open>The names of the fields an entry lacks, and those of a whole document.\<close>

definition asset_missing :: "asset \<Rightarrow> string list" where
  "asset_missing a =
     (if asset_id a = None then [''asset_id''] else []) @
     (if available_quantity a = None then [''available_quantity''] else []) @
     (if market_value a = None then [''market_value''] else []) @
     (if tier_rating a = None then [''tier_rating''] else [])"

definition account_missing :: "account \<Rightarrow> string list" where
  "account_missing a =
     (if account_id a = None then [''account_id''] else []) @
     (if collateral_requirement a = None then [''collateral_requirement''] else [])"

definition haircut_missing :: "haircut_entry \<Rightarrow> string list" where
  "haircut_missing e =
     (if h_asset_id e = None then [''asset_id''] else []) @
     (if h_account_id e = None then [''account_id''] else []) @
     (if haircut e = None then [''haircut''] else [])"

definition limit_missing :: "limit_entry \<Rightarrow> string list" where
  "limit_missing e =
     (if l_asset_id e = None then [''asset_id''] else []) @
     (if l_account_id e = None then [''account_id''] else []) @
     (if max_allocation e = None then [''max_allocation''] else [])"

definition missing_fields :: "input_data \<Rightarrow> string list" where
  "missing_fields input =
     concat (map asset_missing (get_default (assets input) [])) @
     concat (map account_missing (get_default (accounts input) [])) @
     concat (map haircut_missing (get_default (haircut_matrix input) [])) @
     concat (map limit_missing (get_default (limit_matrix input) []))"

text \<open>
  The tables a complete document parses to, in closed form: in a dict built from a list of
  entries the last entry of a key is the one that stays.
\<close>

definition haircut_item :: "haircut_entry \<Rightarrow> var \<times> real" where
  "haircut_item e = ((the (h_asset_id e), the (h_account_id e)), the (haircut e))"

definition limit_item :: "limit_entry \<Rightarrow> var \<times> real" where
  "limit_item e = ((the (l_asset_id e), the (l_account_id e)), the (max_allocation e))"

definition last_wins :: "('k \<times> 'v) list \<Rightarrow> ('k \<rightharpoonup> 'v)" where
  "last_wins kvs = map_of (rev kvs)"

definition tables_of :: "input_data \<Rightarrow> parsed" where
  "tables_of input =
     (let as = get_default (assets input) []; acs = get_default (accounts input) [] in
      \<lparr>I = map (\<lambda>a. the (asset_id a)) as,
       Q_i = last_wins (map (\<lambda>a. (the (asset_id a), the (available_quantity a))) as),
       V_i = last_wins (map (\<lambda>a. (the (asset_id a), the (market_value a))) as),
       omega_i = last_wins (map (\<lambda>a. (the (asset_id a), the (tier_rating a))) as),
       J = map (\<lambda>a. the (account_id a)) acs,
       C_j = last_wins (map (\<lambda>a. (the (account_id a), the (collateral_requirement a))) acs),
       H_ij = last_wins (map haircut_item (get_default (haircut_matrix input) [])),
       L_ij = last_wins (map limit_item (get_default (limit_matrix input) []))\<rparr>)"

subsection \<open>Inputs and solvers of the examples\<close>

text \<open>
  Scenario A of the specification: one asset, one account, no haircut and no limit. A
  solver is a function of the program; \<open>reports st x\<close> answers every program with the
  status \<open>st\<close> and the value \<open>x\<close> for every variable, \<open>crashes\<close> never answers.
  \<open>capped_A\<close> is scenario A with the limit 70 for its pair, \<open>scenario_D\<close> is scenario D of
  the specification, with the limit 10, and \<open>tier_zero\<close> is \<open>capped_A\<close> with the tier
  rating 0.
\<close>

definition scenario_A :: input_data where
  "scenario_A =
     \<lparr>assets = Some [\<lparr>asset_id = Some ''A1'', available_quantity = Some 100,
                      market_value = Some 1, tier_rating = Some 1\<rparr>],
      accounts = Some [\<lparr>account_id = Some ''Acc1'', collateral_requirement = Some 50\<rparr>],
      haircut_matrix = Some [], limit_matrix = Some []\<rparr>"

definition reports :: "lp_status \<Rightarrow> real \<Rightarrow> solver" where
  "reports st x = (\<lambda>prob. Returns st (\<lambda>v. x))"

definition crashes :: solver where
  "crashes = (\<lambda>prob. Raises)"

definition tables_A :: parsed where
  "tables_A =
     \<lparr>I = [''A1''], Q_i = [''A1'' \<mapsto> 100], V_i = [''A1'' \<mapsto> 1], omega_i = [''A1'' \<mapsto> 1],
      J = [''Acc1''], C_j = [''Acc1'' \<mapsto> 50], H_ij = Map.empty, L_ij = Map.empty\<rparr>"

definition capped_A :: input_data where
  "capped_A =
     \<lparr>assets = Some [\<lparr>asset_id = Some ''A1'', available_quantity = Some 100,
                      market_value = Some 1, tier_rating = Some 1\<rparr>],
      accounts = Some [\<lparr>account_id = Some ''Acc1'', collateral_requirement = Some 50\<rparr>],
      haircut_matrix = Some [],
      limit_matrix = Some [\<lparr>l_asset_id = Some ''A1'', l_account_id = Some ''Acc1'',
                            max_allocation = Some 70\<rparr>]\<rparr>"

definition tables_capped :: parsed where
  "tables_capped =
     \<lparr>I = [''A1''], Q_i = [''A1'' \<mapsto> 100], V_i = [''A1'' \<mapsto> 1], omega_i = [''A1'' \<mapsto> 1],
      J = [''Acc1''], C_j = [''Acc1'' \<mapsto> 50], H_ij = Map.empty,
      L_ij = [(''A1'', ''Acc1'') \<mapsto> 70]\<rparr>"

definition scenario_D :: input_data where
  "scenario_D =
     \<lparr>assets = Some [\<lparr>asset_id = Some ''A1'', available_quantity = Some 100,
                      market_value = Some 1, tier_rating = Some 1\<rparr>],
      accounts = Some [\<lparr>account_id = Some ''Acc1'', collateral_requirement = Some 50\<rparr>],
      haircut_matrix = Some [],
      limit_matrix = Some [\<lparr>l_asset_id = Some ''A1'', l_account_id = Some ''Acc1'',
                            max_allocation = Some 10\<rparr>]\<rparr>"

definition tier_zero :: input_data where
  "tier_zero =
     \<lparr>assets = Some [\<lparr>asset_id = Some ''A1'', available_quantity = Some 100,
                      market_value = Some 1, tier_rating = Some 0\<rparr>],
      accounts = Some [\<lparr>account_id = Some ''Acc1'', collateral_requirement = Some 50\<rparr>],
      haircut_matrix = Some [],
      limit_matrix = Some [\<lparr>l_asset_id = Some ''A1'', l_account_id = Some ''Acc1'',
                            max_allocation = Some 70\<rparr>]\<rparr>"




definition duplicates :: input_data where
  "duplicates =
     \<lparr>assets = Some [\<lparr>asset_id = Some ''A1'', available_quantity = Some 100,
                      market_value = Some 1, tier_rating = Some 1\<rparr>],
      accounts = Some [\<lparr>account_id = Some ''Acc1'', collateral_requirement = Some 50\<rparr>],
      haircut_matrix =
        Some [\<lparr>h_asset_id = Some ''A1'', h_account_id = Some ''Acc1'', haircut = Some (1 / 2)\<rparr>,
              \<lparr>h_asset_id = Some ''A1'', h_account_id = Some ''Acc1'', haircut = Some (4 / 5)\<rparr>],
      limit_matrix =
        Some [\<lparr>l_asset_id = Some ''A1'', l_account_id = Some ''Acc1'', max_allocation = Some 10\<rparr>,
              \<lparr>l_asset_id = Some ''A1'', l_account_id = Some ''Acc1'', max_allocation = Some 70\<rparr>]\<rparr>"

section \<open>Properties\<close>

subsection \<open>Parsing\<close>




lemma field_Inr_iff: "field v key = Inr x \<longleftrightarrow> v = Some x"
  by (cases v) (simp_all add: field_def)


lemma subscript_Some: "d k = Some v \<Longrightarrow> subscript d k = Inr v"
  by (simp add: subscript_def)

lemma traverse_map:
  "(\<And>x. x \<in> set xs \<Longrightarrow> f x = Inr (g x)) \<Longrightarrow> traverse f xs = Inr (map g xs)"
  by (induction xs) simp_all


lemma traverse_Inr:
  "traverse f xs = Inr ys \<Longrightarrow> list_all2 (\<lambda>x y. f x = Inr y) xs ys"
  by (induction xs arbitrary: ys) (auto split: sum.splits)


lemma dict_comprehension_Inr:
  "(\<And>x. x \<in> set xs \<Longrightarrow> key x = Inr (k x) \<and> val x = Inr (v x)) \<Longrightarrow>
   dict_comprehension key val xs d = Inr (d ++ map_of (rev (map (\<lambda>x. (k x, v x)) xs)))"
proof (induction xs arbitrary: d)
  case Nil
  then show ?case by simp
next
  case (Cons x xs)
  have "d(k x \<mapsto> v x) ++ map_of (rev (map (\<lambda>x. (k x, v x)) xs))
      = d ++ map_of (rev (map (\<lambda>x. (k x, v x)) xs) @ [(k x, v x)])"
    by (simp add: map_add_def fun_eq_iff split: option.splits)
  with Cons show ?case by simp
qed

lemma field_the: "v \<noteq> None \<Longrightarrow> field v key = Inr (the v)"
  by (cases v) (simp_all add: field_def)

lemma traverse_complete:
  "traverse f xs = Inr ys \<Longrightarrow> \<forall>x\<in>set xs. \<exists>y. f x = Inr y"
  by (induction xs arbitrary: ys) (auto split: sum.splits)

lemma dict_comprehension_complete:
  "dict_comprehension key val xs d = Inr d' \<Longrightarrow>
   \<forall>x\<in>set xs. (\<exists>k. key x = Inr k) \<and> (\<exists>v. val x = Inr v)"
  by (induction xs arbitrary: d) (auto split: sum.splits)

lemma haircut_loop_Inr:
  "(\<And>e. e \<in> set es \<Longrightarrow> haircut_missing e = []) \<Longrightarrow>
   haircut_loop es H = Inr (H ++ last_wins (map haircut_item es))"
proof (induction es arbitrary: H)
  case Nil
  then show ?case by (simp add: last_wins_def)
next
  case (Cons e es)
  from Cons.prems[of e] obtain a b h where
    e: "h_asset_id e = Some a" "h_account_id e = Some b" "haircut e = Some h"
    by (auto simp: haircut_missing_def split: if_splits)
  have "H((a, b) \<mapsto> h) ++ map_of (rev (map haircut_item es))
      = H ++ map_of (rev (map haircut_item es) @ [((a, b), h)])"
    by (simp add: map_add_def fun_eq_iff split: option.splits)
  with Cons e show ?case
    by (simp add: field_def last_wins_def haircut_item_def)
qed


lemma haircut_loop_complete:
  "haircut_loop es H = Inr H' \<Longrightarrow> \<forall>e\<in>set es. haircut_missing e = []"
proof (induction es arbitrary: H)
  case Nil
  then show ?case by simp
next
  case (Cons e es)
  from Cons.prems obtain a b h where
    e: "h_asset_id e = Some a" "h_account_id e = Some b" "haircut e = Some h" and
    rest: "haircut_loop es (H((a, b) \<mapsto> h)) = Inr H'"
    by (auto simp: field_def split: option.splits sum.splits)
  from Cons.IH[OF rest] e show ?case by (simp add: haircut_missing_def)
qed

lemma limit_loop_Inr:
  "(\<And>e. e \<in> set es \<Longrightarrow> limit_missing e = []) \<Longrightarrow>
   limit_loop es L = Inr (L ++ last_wins (map limit_item es))"
proof (induction es arbitrary: L)
  case Nil
  then show ?case by (simp add: last_wins_def)
next
  case (Cons e es)
  from Cons.prems[of e] obtain a b h where
    e: "l_asset_id e = Some a" "l_account_id e = Some b" "max_allocation e = Some h"
    by (auto simp: limit_missing_def split: if_splits)
  have "L((a, b) \<mapsto> h) ++ map_of (rev (map limit_item es))
      = L ++ map_of (rev (map limit_item es) @ [((a, b), h)])"
    by (simp add: map_add_def fun_eq_iff split: option.splits)
  with Cons e show ?case
    by (simp add: field_def last_wins_def limit_item_def)
qed


lemma limit_loop_complete:
  "limit_loop es L = Inr L' \<Longrightarrow> \<forall>e\<in>set es. limit_missing e = []"
proof (induction es arbitrary: L)
  case Nil
  then show ?case by simp
next
  case (Cons e es)
  from Cons.prems obtain a b h where
    e: "l_asset_id e = Some a" "l_account_id e = Some b" "max_allocation e = Some h" and
    rest: "limit_loop es (L((a, b) \<mapsto> h)) = Inr L'"
    by (auto simp: field_def split: option.splits sum.splits)
  from Cons.IH[OF rest] e show ?case by (simp add: limit_missing_def)
qed

lemma dict_comprehension_last_wins:
  "(\<And>x. x \<in> set xs \<Longrightarrow> key x = Inr (k x) \<and> val x = Inr (v x)) \<Longrightarrow>
   dict_comprehension key val xs Map.empty = Inr (last_wins (map (\<lambda>x. (k x, v x)) xs))"
  by (simp add: dict_comprehension_Inr last_wins_def)

lemma parse_assets_Inr:
  assumes "\<And>a. a \<in> set as \<Longrightarrow> asset_missing a = []"
  shows "parse_assets as =
     Inr (map (\<lambda>a. the (asset_id a)) as,
          last_wins (map (\<lambda>a. (the (asset_id a), the (available_quantity a))) as),
          last_wins (map (\<lambda>a. (the (asset_id a), the (market_value a))) as),
          last_wins (map (\<lambda>a. (the (asset_id a), the (tier_rating a))) as))"
proof -
  have c: "asset_id a \<noteq> None \<and> available_quantity a \<noteq> None \<and> market_value a \<noteq> None
      \<and> tier_rating a \<noteq> None" if "a \<in> set as" for a
    using assms[OF that] by (auto simp: asset_missing_def split: if_splits)
  have 1: "traverse asset_key as = Inr (map (\<lambda>a. the (asset_id a)) as)"
    by (rule traverse_map) (use c in \<open>simp add: asset_key_def field_the\<close>)
  have 2: "dict_comprehension asset_key (\<lambda>a. field (available_quantity a) ''available_quantity'') as Map.empty
     = Inr (last_wins (map (\<lambda>a. (the (asset_id a), the (available_quantity a))) as))"
    by (rule dict_comprehension_last_wins) (use c in \<open>simp add: asset_key_def field_the\<close>)
  have 3: "dict_comprehension asset_key (\<lambda>a. field (market_value a) ''market_value'') as Map.empty
     = Inr (last_wins (map (\<lambda>a. (the (asset_id a), the (market_value a))) as))"
    by (rule dict_comprehension_last_wins) (use c in \<open>simp add: asset_key_def field_the\<close>)
  have 4: "dict_comprehension asset_key (\<lambda>a. field (tier_rating a) ''tier_rating'') as Map.empty
     = Inr (last_wins (map (\<lambda>a. (the (asset_id a), the (tier_rating a))) as))"
    by (rule dict_comprehension_last_wins) (use c in \<open>simp add: asset_key_def field_the\<close>)
  show ?thesis by (simp add: parse_assets_def 1 2 3 4)
qed


lemma parse_accounts_Inr:
  assumes "\<And>a. a \<in> set acs \<Longrightarrow> account_missing a = []"
  shows "parse_accounts acs =
     Inr (map (\<lambda>a. the (account_id a)) acs,
          last_wins (map (\<lambda>a. (the (account_id a), the (collateral_requirement a))) acs))"
proof -
  have c: "account_id a \<noteq> None \<and> collateral_requirement a \<noteq> None" if "a \<in> set acs" for a
    using assms[OF that] by (auto simp: account_missing_def split: if_splits)
  have 1: "traverse account_key acs = Inr (map (\<lambda>a. the (account_id a)) acs)"
    by (rule traverse_map) (use c in \<open>simp add: account_key_def field_the\<close>)
  have 2: "dict_comprehension account_key
      (\<lambda>a. field (collateral_requirement a) ''collateral_requirement'') acs Map.empty
     = Inr (last_wins (map (\<lambda>a. (the (account_id a), the (collateral_requirement a))) acs))"
    by (rule dict_comprehension_last_wins) (use c in \<open>simp add: account_key_def field_the\<close>)
  show ?thesis by (simp add: parse_accounts_def 1 2)
qed


lemma parse_input_complete:
  assumes "missing_fields input = []"
  shows "parse_input input = Inr (tables_of input)"
proof -
  from assms have
    a: "\<And>a. a \<in> set (get_default (assets input) []) \<Longrightarrow> asset_missing a = []" and
    b: "\<And>a. a \<in> set (get_default (accounts input) []) \<Longrightarrow> account_missing a = []" and
    c: "\<And>e. e \<in> set (get_default (haircut_matrix input) []) \<Longrightarrow> haircut_missing e = []" and
    d: "\<And>e. e \<in> set (get_default (limit_matrix input) []) \<Longrightarrow> limit_missing e = []"
    by (simp_all add: missing_fields_def)
  show ?thesis
    by (simp add: parse_input_def tables_of_def Let_def parse_assets_Inr[OF a]
        parse_accounts_Inr[OF b] haircut_loop_Inr[OF c] limit_loop_Inr[OF d])
qed


lemma parse_assets_complete:
  assumes "parse_assets as = Inr r"
  shows "\<forall>a\<in>set as. asset_missing a = []"
proof
  fix a assume a: "a \<in> set as"
  from assms obtain ids q v w where
    1: "traverse asset_key as = Inr ids" and
    2: "dict_comprehension asset_key (\<lambda>a. field (available_quantity a) ''available_quantity'') as Map.empty = Inr q" and
    3: "dict_comprehension asset_key (\<lambda>a. field (market_value a) ''market_value'') as Map.empty = Inr v" and
    4: "dict_comprehension asset_key (\<lambda>a. field (tier_rating a) ''tier_rating'') as Map.empty = Inr w"
    unfolding parse_assets_def by (auto split: sum.splits)
  from traverse_complete[OF 1] dict_comprehension_complete[OF 2]
    dict_comprehension_complete[OF 3] dict_comprehension_complete[OF 4] a
  show "asset_missing a = []"
    by (auto simp: asset_missing_def asset_key_def field_Inr_iff)
qed

lemma parse_accounts_complete:
  assumes "parse_accounts acs = Inr r"
  shows "\<forall>a\<in>set acs. account_missing a = []"
proof
  fix a assume a: "a \<in> set acs"
  from assms obtain ids c where
    1: "traverse account_key acs = Inr ids" and
    2: "dict_comprehension account_key (\<lambda>a. field (collateral_requirement a) ''collateral_requirement'') acs Map.empty = Inr c"
    unfolding parse_accounts_def by (auto split: sum.splits)
  from traverse_complete[OF 1] dict_comprehension_complete[OF 2] a
  show "account_missing a = []"
    by (auto simp: account_missing_def account_key_def field_Inr_iff)
qed

lemma parse_input_Inr:
  assumes "parse_input input = Inr p"
  shows "missing_fields input = [] \<and> p = tables_of input"
proof -
  from assms have "missing_fields input = []"
    unfolding parse_input_def missing_fields_def
    by (auto split: sum.splits prod.splits
        dest!: parse_assets_complete parse_accounts_complete haircut_loop_complete
          limit_loop_complete)
  with assms parse_input_complete[of input] show ?thesis by simp
qed


subsection \<open>Building and extracting\<close>

lemma subscript_the: "k \<in> dom d \<Longrightarrow> subscript d k = Inr (the (d k))"
  by (auto simp: subscript_def)

lemma dom_last_wins: "dom (last_wins (map (\<lambda>x. (k x, v x)) xs)) = k ` set xs"
  by (simp add: last_wins_def dom_map_of_conv_image_fst image_image)

lemma keyed_tables_of: "keyed (tables_of input)"
  by (simp add: keyed_def tables_of_def Let_def dom_last_wins)

lemma collateral_requirements_eq:
  assumes "set (I p) \<subseteq> dom (V_i p)" "set js \<subseteq> dom (C_j p)"
  shows "collateral_requirements p js prob =
     Inr (prob\<lparr>constraints := constraints prob @ map (collateral_sufficiency p) js\<rparr>)"
  using assms(2)
proof (induction js arbitrary: prob)
  case Nil
  then show ?case by simp
next
  case (Cons j js)
  have t: "traverse (collateral_term p j) (I p)
      = Inr (map (\<lambda>i. ((i, j), the (V_i p i) * get_default (H_ij p (i, j)) 1)) (I p))"
    by (rule traverse_map) (use assms(1) in \<open>auto simp: collateral_term_def subscript_def\<close>)
  from Cons.prems have c: "subscript (C_j p) j = Inr (the (C_j p j))"
    by (simp add: subscript_the)
  from Cons.prems have "set js \<subseteq> dom (C_j p)" by simp
  from Cons.IH[OF this] show ?case
    by (simp add: t c add_constraint_def collateral_sufficiency_def)
qed

lemma asset_quantity_limits_eq:
  assumes "set is \<subseteq> dom (Q_i p)"
  shows "asset_quantity_limits p is prob =
     Inr (prob\<lparr>constraints := constraints prob @ map (inventory_limit p) is\<rparr>)"
  using assms
proof (induction "is" arbitrary: prob)
  case Nil
  then show ?case by simp
next
  case (Cons i "is")
  from Cons.prems have q: "subscript (Q_i p) i = Inr (the (Q_i p i))"
    by (simp add: subscript_the)
  from Cons.prems have "set is \<subseteq> dom (Q_i p)" by simp
  from Cons.IH[OF this] show ?case
    by (simp add: q add_constraint_def inventory_limit_def)
qed

lemma allocation_limits_of_asset_eq:
  assumes "i \<in> dom (V_i p)"
  shows "allocation_limits_of_asset p i js prob =
     Inr (prob\<lparr>constraints := constraints prob @ map (\<lambda>j. pairwise_cap p (i, j)) js\<rparr>)"
proof (induction js arbitrary: prob)
  case Nil
  then show ?case by simp
next
  case (Cons j js)
  from assms have v: "subscript (V_i p) i = Inr (the (V_i p i))"
    by (simp add: subscript_the)
  have r: "get_default (map_option Finite (L_ij p (i, j))) Infinity
      = (case L_ij p (i, j) of None \<Rightarrow> Infinity | Some m \<Rightarrow> Finite m)"
    by (simp add: get_default_def split: option.splits)
  from Cons.IH show ?case
    by (simp add: v r add_constraint_def pairwise_cap_def)
qed

lemma allocation_limits_eq:
  assumes "set is \<subseteq> dom (V_i p)"
  shows "allocation_limits p is prob =
     Inr (prob\<lparr>constraints := constraints prob @ map (pairwise_cap p) (List.product is (J p))\<rparr>)"
  using assms
proof (induction "is" arbitrary: prob)
  case Nil
  then show ?case by simp
next
  case (Cons i "is")
  from Cons.prems have i: "i \<in> dom (V_i p)" and r: "set is \<subseteq> dom (V_i p)" by simp_all
  show ?case
    by (simp add: allocation_limits_of_asset_eq[OF i] Cons.IH[OF r] comp_def)
qed

lemma build_model_eq:
  assumes "keyed p"
  shows "build_model p =
     Inr \<lparr>variables = List.product (I p) (J p),
          objective = map (cost_term p) (List.product (I p) (J p)),
          constraints = map (collateral_sufficiency p) (J p) @ map (inventory_limit p) (I p)
            @ map (pairwise_cap p) (List.product (I p) (J p))\<rparr>"
proof -
  from assms have k: "set (I p) \<subseteq> dom (Q_i p)" "set (I p) \<subseteq> dom (V_i p)"
    "set (I p) \<subseteq> dom (omega_i p)" "set (J p) \<subseteq> dom (C_j p)"
    by (simp_all add: keyed_def)
  have o: "traverse (objective_term p) (List.product (I p) (J p))
      = Inr (map (cost_term p) (List.product (I p) (J p)))"
  proof (rule traverse_map)
    fix x assume "x \<in> set (List.product (I p) (J p))"
    then obtain i j where x: "x = (i, j)" and i: "i \<in> set (I p)" by auto
    from i k have "i \<in> dom (omega_i p)" "i \<in> dom (V_i p)" by auto
    then show "objective_term p x = Inr (cost_term p x)"
      by (simp add: x objective_term_def cost_term_def subscript_the)
  qed
  show ?thesis
    by (simp add: build_model_def Let_def o collateral_requirements_eq[OF k(2) k(4)]
        asset_quantity_limits_eq[OF k(1)] allocation_limits_eq[OF k(2)])
qed

lemma extract_results_of_asset_eq:
  "extract_results_of_asset q i js m =
     m @ map (\<lambda>j. \<lparr>a_asset_id = i, a_account_id = j, allocation_fraction = q (i, j)\<rparr>) js"
  by (induction js arbitrary: m) simp_all

lemma extract_results_eq:
  "extract_results q is js m =
     m @ map (\<lambda>(i, j). \<lparr>a_asset_id = i, a_account_id = j, allocation_fraction = q (i, j)\<rparr>)
           (List.product is js)"
  by (induction "is" arbitrary: m) (simp_all add: extract_results_of_asset_eq comp_def)

subsection \<open>The examples evaluated\<close>

lemmas parse_defs = parse_input_def parse_assets_def parse_accounts_def asset_key_def
  account_key_def field_def get_default_def

lemmas build_defs = build_model_def objective_term_def collateral_term_def subscript_def
  add_constraint_def

lemma model_of_eq:
  "parse_input input = Inr p \<Longrightarrow> build_model p = Inr prob \<Longrightarrow> pulp_accepts prob \<Longrightarrow>
   model_of input = Inr prob"
  by (simp add: model_of_def)

lemma model_of_refused:
  "parse_input input = Inr p \<Longrightarrow> build_model p = Inr prob \<Longrightarrow> \<not> pulp_accepts prob \<Longrightarrow>
   model_of input = Inl PulpError"
  by (simp add: model_of_def)

lemma model_of_Inr:
  "model_of input = Inr prob \<Longrightarrow> parse_input input = Inr p \<Longrightarrow>
   build_model p = Inr prob \<and> pulp_accepts prob"
  by (auto simp: model_of_def split: sum.splits if_splits)

lemma parse_A: "parse_input scenario_A = Inr tables_A"
  by (simp add: scenario_A_def tables_A_def parse_defs)

lemma build_A: "build_model tables_A =
  Inr \<lparr>variables = [(''A1'', ''Acc1'')], objective = [((''A1'', ''Acc1''), 1)],
       constraints =
         [\<lparr>cname = ''Collateral_Requirement_Account_Acc1'', lhs = [((''A1'', ''Acc1''), 1)],
           csense = GE, rhs = Finite 50\<rparr>,
          \<lparr>cname = ''Asset_Quantity_Limit_Asset_A1'', lhs = [((''A1'', ''Acc1''), 1)],
           csense = LE, rhs = Finite 100\<rparr>,
          \<lparr>cname = ''Allocation_Limit_Asset_A1_Account_Acc1'', lhs = [((''A1'', ''Acc1''), 1)],
           csense = LE, rhs = Infinity\<rparr>]\<rparr>"
  by (simp add: tables_A_def build_defs get_default_def)

lemma parse_capped: "parse_input capped_A = Inr tables_capped"
  by (simp add: capped_A_def tables_capped_def parse_defs)

lemma build_capped: "build_model tables_capped =
  Inr \<lparr>variables = [(''A1'', ''Acc1'')], objective = [((''A1'', ''Acc1''), 1)],
       constraints =
         [\<lparr>cname = ''Collateral_Requirement_Account_Acc1'', lhs = [((''A1'', ''Acc1''), 1)],
           csense = GE, rhs = Finite 50\<rparr>,
          \<lparr>cname = ''Asset_Quantity_Limit_Asset_A1'', lhs = [((''A1'', ''Acc1''), 1)],
           csense = LE, rhs = Finite 100\<rparr>,
          \<lparr>cname = ''Allocation_Limit_Asset_A1_Account_Acc1'', lhs = [((''A1'', ''Acc1''), 1)],
           csense = LE, rhs = Finite 70\<rparr>]\<rparr>"
  by (simp add: tables_capped_def build_defs get_default_def)

lemma model_capped: "model_of capped_A =
  Inr \<lparr>variables = [(''A1'', ''Acc1'')], objective = [((''A1'', ''Acc1''), 1)],
       constraints =
         [\<lparr>cname = ''Collateral_Requirement_Account_Acc1'', lhs = [((''A1'', ''Acc1''), 1)],
           csense = GE, rhs = Finite 50\<rparr>,
          \<lparr>cname = ''Asset_Quantity_Limit_Asset_A1'', lhs = [((''A1'', ''Acc1''), 1)],
           csense = LE, rhs = Finite 100\<rparr>,
          \<lparr>cname = ''Allocation_Limit_Asset_A1_Account_Acc1'', lhs = [((''A1'', ''Acc1''), 1)],
           csense = LE, rhs = Finite 70\<rparr>]\<rparr>"
  by (rule model_of_eq[OF parse_capped build_capped])
     (simp add: pulp_accepts_def legal_name_def)

lemma parse_D: "parse_input scenario_D =
  Inr \<lparr>I = [''A1''], Q_i = [''A1'' \<mapsto> 100], V_i = [''A1'' \<mapsto> 1], omega_i = [''A1'' \<mapsto> 1],
       J = [''Acc1''], C_j = [''Acc1'' \<mapsto> 50], H_ij = Map.empty,
       L_ij = [(''A1'', ''Acc1'') \<mapsto> 10]\<rparr>"
  by (simp add: scenario_D_def parse_defs)

lemma model_D: "model_of scenario_D =
  Inr \<lparr>variables = [(''A1'', ''Acc1'')], objective = [((''A1'', ''Acc1''), 1)],
       constraints =
         [\<lparr>cname = ''Collateral_Requirement_Account_Acc1'', lhs = [((''A1'', ''Acc1''), 1)],
           csense = GE, rhs = Finite 50\<rparr>,
          \<lparr>cname = ''Asset_Quantity_Limit_Asset_A1'', lhs = [((''A1'', ''Acc1''), 1)],
           csense = LE, rhs = Finite 100\<rparr>,
          \<lparr>cname = ''Allocation_Limit_Asset_A1_Account_Acc1'', lhs = [((''A1'', ''Acc1''), 1)],
           csense = LE, rhs = Finite 10\<rparr>]\<rparr>"
  by (simp add: model_of_def parse_D build_defs get_default_def pulp_accepts_def legal_name_def)

lemma value_of_map:
  "value_of q (map (\<lambda>v. (v, c v)) vs) = (\<Sum>v\<leftarrow>vs. q v * c v)"
  by (simp add: value_of_def comp_def)

lemma parse_build:
  assumes "parse_input input = Inr p"
  shows "build_model p =
     Inr \<lparr>variables = List.product (I p) (J p),
          objective = map (cost_term p) (List.product (I p) (J p)),
          constraints = map (collateral_sufficiency p) (J p) @ map (inventory_limit p) (I p)
            @ map (pairwise_cap p) (List.product (I p) (J p))\<rparr>"
  using parse_input_Inr[OF assms] keyed_tables_of[of input] by (simp add: build_model_eq)



lemma cname_collateral [simp]:
  "cname (collateral_sufficiency p j) = ''Collateral_Requirement_Account_'' @ j"
  by (simp add: collateral_sufficiency_def)

lemma cname_inventory [simp]:
  "cname (inventory_limit p i) = ''Asset_Quantity_Limit_Asset_'' @ i"
  by (simp add: inventory_limit_def)

lemma cname_cap [simp]:
  "cname (pairwise_cap p v) = ''Allocation_Limit_Asset_'' @ fst v @ ''_Account_'' @ snd v"
  by (cases v) (simp add: pairwise_cap_def)



subsection \<open>The tables and the input\<close>

lemma last_wins_None: "last_wins kvs k = None \<longleftrightarrow> k \<notin> fst ` set kvs"
  by (simp add: last_wins_def map_of_eq_None_iff)

lemma last_wins_insert:
  "last_wins (xs @ (k, x) # ys) =
     (if k \<in> fst ` set ys then last_wins (xs @ ys) else (last_wins (xs @ ys))(k \<mapsto> x))"
proof (rule ext)
  fix v
  show "last_wins (xs @ (k, x) # ys) v =
     (if k \<in> fst ` set ys then last_wins (xs @ ys) else (last_wins (xs @ ys))(k \<mapsto> x)) v"
  proof (cases "map_of (rev ys) v")
    case None
    then have "v \<notin> fst ` set ys" by (simp add: map_of_eq_None_iff)
    with None show ?thesis
      by (auto simp: last_wins_def map_add_def)
  next
    case (Some y)
    then have "v \<in> fst ` set ys"
      by (metis map_of_eq_None_iff option.distinct(1) set_rev)
    with Some show ?thesis
      by (auto simp: last_wins_def map_add_def)
  qed
qed

lemma last_wins_last: "k \<notin> fst ` set ys \<Longrightarrow> last_wins (xs @ (k, x) # ys) k = Some x"
  by (simp add: last_wins_insert)

lemma key_notin: "\<forall>e\<in>set es. fst (f e) \<noteq> k \<Longrightarrow> k \<notin> fst ` set (map f es)"
  by (induction es) auto




lemma haircut_missing_Nil:
  "haircut_missing e = [] \<longleftrightarrow>
     (\<exists>a b h. h_asset_id e = Some a \<and> h_account_id e = Some b \<and> haircut e = Some h)"
  by (cases "h_asset_id e"; cases "h_account_id e"; cases "haircut e")
     (simp_all add: haircut_missing_def)

lemma limit_missing_Nil:
  "limit_missing e = [] \<longleftrightarrow>
     (\<exists>a b m. l_asset_id e = Some a \<and> l_account_id e = Some b \<and> max_allocation e = Some m)"
  by (cases "l_asset_id e"; cases "l_account_id e"; cases "max_allocation e")
     (simp_all add: limit_missing_def)





lemma limit_key_absent:
  assumes "parse_input input = Inr p"
  shows "L_ij p (i, j) = None \<longleftrightarrow>
     (\<forall>e\<in>set (get_default (limit_matrix input) []). \<not> (l_asset_id e = Some i \<and> l_account_id e = Some j))"
proof -
  from parse_input_Inr[OF assms] have m: "missing_fields input = []" and p: "p = tables_of input"
    by simp_all
  have c: "fst (limit_item e) = (i, j) \<longleftrightarrow> l_asset_id e = Some i \<and> l_account_id e = Some j"
    if "e \<in> set (get_default (limit_matrix input) [])" for e
  proof -
    from m that have "limit_missing e = []" by (simp add: missing_fields_def)
    then obtain a b where "l_asset_id e = Some a" "l_account_id e = Some b"
      by (auto simp: limit_missing_Nil)
    then show ?thesis by (simp add: limit_item_def)
  qed
  have "L_ij p (i, j) = None \<longleftrightarrow> (i, j) \<notin> fst ` limit_item ` set (get_default (limit_matrix input) [])"
    by (simp add: p tables_of_def Let_def last_wins_None)
  also have "\<dots> \<longleftrightarrow> (\<forall>e\<in>set (get_default (limit_matrix input) []). fst (limit_item e) \<noteq> (i, j))"
    by (simp add: image_iff) metis
  finally show ?thesis using c by auto
qed

subsection \<open>The collateral and inventory constraints\<close>



subsection \<open>The pairwise caps\<close>

lemma holds_cap:
  "holds q (pairwise_cap p (i, j)) \<longleftrightarrow>
     (case L_ij p (i, j) of None \<Rightarrow> True | Some m \<Rightarrow> q (i, j) * the (V_i p i) \<le> m)"
  by (simp add: holds_def pairwise_cap_def value_of_def split: option.splits)

lemma run_refused:
  "parse_input input = Inr p \<Longrightarrow> build_model p = Inr prob \<Longrightarrow> \<not> pulp_accepts prob \<Longrightarrow>
   run S input sp = Inl PulpError"
  by (simp add: run_def)

lemma missing_limit_refused:
  assumes "parse_input input = Inr p"
    and "(i, j) \<in> set (List.product (I p) (J p))" and "L_ij p (i, j) = None"
  shows "run S input sp = Inl PulpError"
proof -
  let ?prob = "\<lparr>variables = List.product (I p) (J p),
          objective = map (cost_term p) (List.product (I p) (J p)),
          constraints = map (collateral_sufficiency p) (J p) @ map (inventory_limit p) (I p)
            @ map (pairwise_cap p) (List.product (I p) (J p))\<rparr>"
  from assms(2) have "pairwise_cap p (i, j) \<in> set (constraints ?prob)" by simp
  moreover from assms(3) have "rhs (pairwise_cap p (i, j)) = Infinity"
    by (simp add: pairwise_cap_def)
  ultimately have "\<not> pulp_accepts ?prob"
    unfolding pulp_accepts_def list_all_iff by blast
  from run_refused[OF assms(1) parse_build[OF assms(1)] this] show ?thesis .
qed

text \<open>
  C1. Scenario A of the specification has no limit entry. Line 86 builds the cap of its
  one pair all the same, with the right-hand side infinity, and hands it to pulp, which
  refuses it: the call raises instead of leaving the pair unconstrained.
\<close>

theorem scenario_A_raises:
  "limit_matrix scenario_A = Some []
   \<and> build_model tables_A =
       Inr \<lparr>variables = [(''A1'', ''Acc1'')], objective = [((''A1'', ''Acc1''), 1)],
            constraints =
              [\<lparr>cname = ''Collateral_Requirement_Account_Acc1'',
                lhs = [((''A1'', ''Acc1''), 1)], csense = GE, rhs = Finite 50\<rparr>,
               \<lparr>cname = ''Asset_Quantity_Limit_Asset_A1'', lhs = [((''A1'', ''Acc1''), 1)],
                csense = LE, rhs = Finite 100\<rparr>,
               \<lparr>cname = ''Allocation_Limit_Asset_A1_Account_Acc1'',
                lhs = [((''A1'', ''Acc1''), 1)], csense = LE, rhs = Infinity\<rparr>]\<rparr>
   \<and> run (reports LpStatusOptimal 50) scenario_A None = Inl PulpError"
proof -
  have "run (reports LpStatusOptimal 50) scenario_A None = Inl PulpError"
    by (rule run_refused[OF parse_A build_A]) (simp add: pulp_accepts_def)
  then show ?thesis by (simp add: build_A) (simp add: scenario_A_def)
qed

subsection \<open>Non-optimal outcomes\<close>

text \<open>
  C7. Whenever the solver returns with a status other than optimal (infeasible, unbounded
  or error), \<open>run\<close> returns normally: the allocation matrix is empty, the cost is null
  and the status string is "No optimal solution found.".
\<close>

theorem non_optimal_result:
  assumes "model_of input = Inr prob"
    and "chosen_solver PULP_CBC_CMD solver_params prob = Returns st q"
    and "st \<noteq> LpStatusOptimal"
  shows "run PULP_CBC_CMD input solver_params =
     Inr \<lparr>allocation_matrix = [], total_collateral_cost = None,
          status = Some ''No optimal solution found.''\<rparr>"
  using assms by (auto simp: run_def model_of_def split: sum.splits if_splits)

theorem non_optimal_result_witness:
  "run (reports LpStatusInfeasible 0) scenario_D None =
     Inr \<lparr>allocation_matrix = [], total_collateral_cost = None,
          status = Some ''No optimal solution found.''\<rparr>
   \<and> run crashes capped_A (Some \<lparr>solver = Some (reports LpStatusUnbounded 0)\<rparr>) =
     Inr \<lparr>allocation_matrix = [], total_collateral_cost = None,
          status = Some ''No optimal solution found.''\<rparr>"
proof -
  have a: "chosen_solver (reports LpStatusInfeasible 0) None p
      = Returns LpStatusInfeasible (\<lambda>v. 0)" for p
    by (simp add: chosen_solver_def reports_def get_default_def)
  have b: "chosen_solver crashes (Some \<lparr>solver = Some (reports LpStatusUnbounded 0)\<rparr>) p
      = Returns LpStatusUnbounded (\<lambda>v. 0)" for p
    by (simp add: chosen_solver_def reports_def get_default_def)
  show ?thesis
    using non_optimal_result[OF model_D a] non_optimal_result[OF model_capped b] by simp
qed

subsection \<open>The result of an optimal outcome\<close>

lemma run_solved:
  assumes "parse_input input = Inr p" and "model_of input = Inr prob"
  shows "run S input sp =
     (case chosen_solver S sp prob of
        Raises \<Rightarrow> Inl PulpSolverError
      | Returns st q \<Rightarrow>
          if st \<noteq> LpStatusOptimal then
            Inr \<lparr>allocation_matrix = [], total_collateral_cost = None,
                 status = Some ''No optimal solution found.''\<rparr>
          else
            Inr \<lparr>allocation_matrix =
                   map (\<lambda>(i, j). \<lparr>a_asset_id = i, a_account_id = j, allocation_fraction = q (i, j)\<rparr>)
                     (List.product (I p) (J p)),
                 total_collateral_cost = objective_value q (objective prob),
                 status = None\<rparr>)"
  using model_of_Inr[OF assms(2,1)] assms(1)
  by (simp add: run_def extract_results_eq split: solver_outcome.splits)

lemma model_of_parsed:
  assumes "parse_input input = Inr p" and "model_of input = Inr prob"
  shows "objective prob = map (cost_term p) (List.product (I p) (J p))"
  using model_of_Inr[OF assms(2,1)] parse_build[OF assms(1)] by auto

lemma chosen_default: "chosen_solver S None = S"
  by (simp add: chosen_solver_def get_default_def)

lemma cost_recomputed:
  assumes "parse_input input = Inr p" and "model_of input = Inr prob"
    and "chosen_solver PULP_CBC_CMD solver_params prob = Returns LpStatusOptimal q"
    and "\<not> list_all (\<lambda>(v, c). c = 0) (objective prob)"
  shows "\<exists>res. run PULP_CBC_CMD input solver_params = Inr res \<and>
     total_collateral_cost res =
       Some (\<Sum>a\<leftarrow>allocation_matrix res.
               the (omega_i p (a_asset_id a)) * allocation_fraction a
               * the (V_i p (a_asset_id a))
               * get_default (H_ij p (a_asset_id a, a_account_id a)) 1)"
proof -
  have "value_of q (map (cost_term p) xs) =
     (\<Sum>a\<leftarrow>map (\<lambda>(i, j). \<lparr>a_asset_id = i, a_account_id = j, allocation_fraction = q (i, j)\<rparr>) xs.
        the (omega_i p (a_asset_id a)) * allocation_fraction a * the (V_i p (a_asset_id a))
        * get_default (H_ij p (a_asset_id a, a_account_id a)) 1)" for xs
    by (induction xs) (auto simp: value_of_def cost_term_def)
  from this[of "List.product (I p) (J p)"]
  have "value_of q (objective prob) =
     (\<Sum>a\<leftarrow>map (\<lambda>(i, j). \<lparr>a_asset_id = i, a_account_id = j, allocation_fraction = q (i, j)\<rparr>)
           (List.product (I p) (J p)).
        the (omega_i p (a_asset_id a)) * allocation_fraction a * the (V_i p (a_asset_id a))
        * get_default (H_ij p (a_asset_id a, a_account_id a)) 1)"
    by (simp only: model_of_parsed[OF assms(1,2)])
  then show ?thesis
    using assms(3,4)
    by (simp add: run_solved[OF assms(1,2)] objective_value_def)
qed

lemma parse_tier_zero:
  "parse_input tier_zero =
     Inr \<lparr>I = [''A1''], Q_i = [''A1'' \<mapsto> 100], V_i = [''A1'' \<mapsto> 1], omega_i = [''A1'' \<mapsto> 0],
          J = [''Acc1''], C_j = [''Acc1'' \<mapsto> 50], H_ij = Map.empty,
          L_ij = [(''A1'', ''Acc1'') \<mapsto> 70]\<rparr>"
  by (simp add: tier_zero_def parse_defs)

lemma model_tier_zero:
  "model_of tier_zero =
     Inr \<lparr>variables = [(''A1'', ''Acc1'')], objective = [((''A1'', ''Acc1''), 0)],
          constraints =
            [\<lparr>cname = ''Collateral_Requirement_Account_Acc1'',
              lhs = [((''A1'', ''Acc1''), 1)], csense = GE, rhs = Finite 50\<rparr>,
             \<lparr>cname = ''Asset_Quantity_Limit_Asset_A1'', lhs = [((''A1'', ''Acc1''), 1)],
              csense = LE, rhs = Finite 100\<rparr>,
             \<lparr>cname = ''Allocation_Limit_Asset_A1_Account_Acc1'',
              lhs = [((''A1'', ''Acc1''), 1)], csense = LE, rhs = Finite 70\<rparr>]\<rparr>"
  by (simp add: model_of_def parse_tier_zero build_defs get_default_def pulp_accepts_def
      legal_name_def)

text \<open>
  C3. With the tier rating 0 the objective has no term. The solver's optimal solution
  allocates 50 units, the sum of \<open>tier_rating * Q * market_value * haircut\<close> over the
  returned matrix is 0, and the returned \<open>total_collateral_cost\<close> is null.
\<close>

theorem tier_zero_cost_is_null:
  "run (reports LpStatusOptimal 50) tier_zero None =
     Inr \<lparr>allocation_matrix =
            [\<lparr>a_asset_id = ''A1'', a_account_id = ''Acc1'', allocation_fraction = 50\<rparr>],
          total_collateral_cost = None, status = None\<rparr>"
  by (simp add: run_solved[OF parse_tier_zero model_tier_zero] chosen_default reports_def
      objective_value_def)

text \<open>
  C4, as the program has it. When the solver reports an optimal solution, the allocation
  matrix lists the pairs of the cross product in order, each with the very value the
  solver gave to its variable: nothing is clamped, a negative value stays negative.
\<close>

theorem allocation_values_passed_through:
  assumes "parse_input input = Inr p" and "model_of input = Inr prob"
    and "chosen_solver PULP_CBC_CMD solver_params prob = Returns LpStatusOptimal q"
  shows "\<exists>res. run PULP_CBC_CMD input solver_params = Inr res \<and>
     allocation_matrix res =
       map (\<lambda>(i, j). \<lparr>a_asset_id = i, a_account_id = j, allocation_fraction = q (i, j)\<rparr>)
         (List.product (I p) (J p))"
  using assms(3) by (simp add: run_solved[OF assms(1,2)])

lemma run_capped_optimal:
  "run (reports LpStatusOptimal x) capped_A None =
     Inr \<lparr>allocation_matrix =
            [\<lparr>a_asset_id = ''A1'', a_account_id = ''Acc1'', allocation_fraction = x\<rparr>],
          total_collateral_cost = Some x, status = None\<rparr>"
  by (simp add: run_solved[OF parse_capped model_capped] chosen_default reports_def
      tables_capped_def value_of_def objective_value_def)

text \<open>
  A solver value of minus one billionth, negative and as close to zero as a tolerance
  asks, is returned as it is.
\<close>

theorem negative_value_counterexample:
  "run (reports LpStatusOptimal (- 1 / 1000000000)) capped_A None =
     Inr \<lparr>allocation_matrix =
            [\<lparr>a_asset_id = ''A1'', a_account_id = ''Acc1'',
              allocation_fraction = - 1 / 1000000000\<rparr>],
          total_collateral_cost = Some (- 1 / 1000000000), status = None\<rparr>"
  by (rule run_capped_optimal)

theorem allocation_values_passed_through_witness:
  "\<exists>res. run (reports LpStatusOptimal (- 5)) capped_A None = Inr res \<and>
     allocation_matrix res =
       [\<lparr>a_asset_id = ''A1'', a_account_id = ''Acc1'', allocation_fraction = - 5\<rparr>]"
proof -
  have c: "chosen_solver (reports LpStatusOptimal (- 5)) None prob
      = Returns LpStatusOptimal (\<lambda>v. - 5)" for prob
    by (simp add: chosen_default reports_def)
  from allocation_values_passed_through[OF parse_capped model_capped c]
  show ?thesis by (simp add: tables_capped_def)
qed

subsection \<open>Failures of the solver\<close>

text \<open>
  C5, as the program has it. A solver that raises makes \<open>run\<close> fail with the solver's
  exception. A solver that returns with the error status gets the same document as one
  that returns with the infeasible status.
\<close>

theorem solver_failures:
  assumes "model_of input = Inr prob"
  shows "(chosen_solver PULP_CBC_CMD solver_params prob = Raises \<longrightarrow>
            run PULP_CBC_CMD input solver_params = Inl PulpSolverError)
    \<and> (\<forall>q. chosen_solver PULP_CBC_CMD solver_params prob = Returns LpStatusError q \<longrightarrow>
            run PULP_CBC_CMD input solver_params =
              Inr \<lparr>allocation_matrix = [], total_collateral_cost = None,
                   status = Some ''No optimal solution found.''\<rparr>)
    \<and> (\<forall>q. chosen_solver PULP_CBC_CMD solver_params prob = Returns LpStatusInfeasible q \<longrightarrow>
            run PULP_CBC_CMD input solver_params =
              Inr \<lparr>allocation_matrix = [], total_collateral_cost = None,
                   status = Some ''No optimal solution found.''\<rparr>)"
  using assms by (auto simp: run_def model_of_def split: sum.splits if_splits)

text \<open>
  On scenario D the error status and the infeasible status give the same result.
\<close>

theorem solver_error_status_counterexample:
  "run (reports LpStatusError 0) scenario_D None =
     Inr \<lparr>allocation_matrix = [], total_collateral_cost = None,
          status = Some ''No optimal solution found.''\<rparr>
   \<and> run (reports LpStatusInfeasible 0) scenario_D None =
     Inr \<lparr>allocation_matrix = [], total_collateral_cost = None,
          status = Some ''No optimal solution found.''\<rparr>"
  by (simp add: run_solved[OF parse_D model_D] chosen_default reports_def)

theorem solver_failures_witness:
  "run crashes scenario_D None = Inl PulpSolverError
   \<and> run (reports LpStatusError 0) scenario_D None =
       Inr \<lparr>allocation_matrix = [], total_collateral_cost = None,
            status = Some ''No optimal solution found.''\<rparr>
   \<and> run (reports LpStatusInfeasible 0) scenario_D None =
       Inr \<lparr>allocation_matrix = [], total_collateral_cost = None,
            status = Some ''No optimal solution found.''\<rparr>"
proof -
  have a: "chosen_solver crashes None prob = Raises" for prob
    by (simp add: chosen_default crashes_def)
  have b: "chosen_solver (reports st 0) None prob = Returns st (\<lambda>v. 0)" for st prob
    by (simp add: chosen_default reports_def)
  from solver_failures[OF model_D, of crashes None] a
  have 1: "run crashes scenario_D None = Inl PulpSolverError" by blast
  from solver_failures[OF model_D, of "reports LpStatusError 0" None] b
  have 2: "run (reports LpStatusError 0) scenario_D None =
       Inr \<lparr>allocation_matrix = [], total_collateral_cost = None,
            status = Some ''No optimal solution found.''\<rparr>" by blast
  from solver_failures[OF model_D, of "reports LpStatusInfeasible 0" None] b
  have 3: "run (reports LpStatusInfeasible 0) scenario_D None =
       Inr \<lparr>allocation_matrix = [], total_collateral_cost = None,
            status = Some ''No optimal solution found.''\<rparr>" by blast
  from 1 2 3 show ?thesis by simp
qed

subsection \<open>Invalid input\<close>














subsection \<open>Empty inputs\<close>







subsection \<open>The default haircut\<close>

lemma build_model_haircut_cong:
  assumes "keyed p" and "keyed p'"
    and "I p' = I p" "J p' = J p" "Q_i p' = Q_i p" "V_i p' = V_i p" "omega_i p' = omega_i p"
    and "C_j p' = C_j p" "L_ij p' = L_ij p"
    and "\<And>v. get_default (H_ij p' v) 1 = get_default (H_ij p v) 1"
  shows "build_model p' = build_model p"
proof -
  have 1: "cost_term p' = cost_term p"
    by (simp add: cost_term_def assms fun_eq_iff)
  have 2: "collateral_sufficiency p' = collateral_sufficiency p"
    by (simp add: collateral_sufficiency_def assms fun_eq_iff)
  have 3: "inventory_limit p' = inventory_limit p"
    by (simp add: inventory_limit_def assms fun_eq_iff)
  have 4: "pairwise_cap p' = pairwise_cap p"
    by (simp add: pairwise_cap_def assms fun_eq_iff)
  show ?thesis
    by (simp add: build_model_eq[OF assms(1)] build_model_eq[OF assms(2)] 1 2 3 4 assms(3,4))
qed

lemma run_model_cong:
  assumes "parse_input input = Inr p" and "parse_input input' = Inr p'"
    and "I p' = I p" and "J p' = J p" and "build_model p' = build_model p"
  shows "run S input' sp = run S input sp"
  using assms by (simp add: run_def split: sum.splits solver_outcome.splits if_splits)

text \<open>
  C8. For every input that parses and every pair with no entry in the haircut table,
  adding an entry with the haircut 1 for that pair, at any place of the table, leaves the
  linear program the same, objective and constraints, and with it every result of \<open>run\<close>.
\<close>

theorem default_haircut_is_one:
  assumes "parse_input input = Inr p"
    and "get_default (haircut_matrix input) [] = xs @ ys"
    and "\<forall>e\<in>set (xs @ ys). \<not> (h_asset_id e = Some i \<and> h_account_id e = Some j)"
  shows "model_of (input\<lparr>haircut_matrix :=
             Some (xs @ \<lparr>h_asset_id = Some i, h_account_id = Some j, haircut = Some 1\<rparr> # ys)\<rparr>)
           = model_of input
    \<and> (\<forall>S sp. run S (input\<lparr>haircut_matrix :=
             Some (xs @ \<lparr>h_asset_id = Some i, h_account_id = Some j, haircut = Some 1\<rparr> # ys)\<rparr>) sp
           = run S input sp)"
proof -
  let ?e = "\<lparr>h_asset_id = Some i, h_account_id = Some j, haircut = Some 1\<rparr>"
  let ?input' = "input\<lparr>haircut_matrix := Some (xs @ ?e # ys)\<rparr>"
  from parse_input_Inr[OF assms(1)] have m: "missing_fields input = []" and p: "p = tables_of input"
    by simp_all
  from m assms(2) have c: "\<forall>e\<in>set (xs @ ys). haircut_missing e = []"
    by (auto simp: missing_fields_def)
  have m': "missing_fields ?input' = []"
    using m c by (simp add: missing_fields_def get_default_def haircut_missing_def)
  have p': "parse_input ?input' = Inr (tables_of ?input')"
    by (rule parse_input_complete[OF m'])
  have k: "(i, j) \<notin> fst ` set (map haircut_item ys)" "(i, j) \<notin> fst ` set (map haircut_item xs)"
  proof -
    have "fst (haircut_item e) \<noteq> (i, j)" if "e \<in> set (xs @ ys)" for e
    proof -
      from c that have "haircut_missing e = []" by blast
      then obtain a b where "h_asset_id e = Some a" "h_account_id e = Some b"
        by (auto simp: haircut_missing_Nil)
      with assms(3) that show ?thesis by (auto simp: haircut_item_def)
    qed
    then have y: "\<forall>e\<in>set ys. fst (haircut_item e) \<noteq> (i, j)"
      and x: "\<forall>e\<in>set xs. fst (haircut_item e) \<noteq> (i, j)" by simp_all
    show "(i, j) \<notin> fst ` set (map haircut_item ys)" by (rule key_notin[OF y])
    show "(i, j) \<notin> fst ` set (map haircut_item xs)" by (rule key_notin[OF x])
  qed
  have none: "H_ij p (i, j) = None"
    using k by (simp add: p tables_of_def Let_def assms(2) last_wins_None image_Un)
  have h0: "H_ij p = last_wins (map haircut_item xs @ map haircut_item ys)"
    by (simp add: p tables_of_def Let_def assms(2))
  have h1: "H_ij (tables_of ?input')
      = last_wins (map haircut_item xs @ ((i, j), 1) # map haircut_item ys)"
    by (simp add: tables_of_def Let_def get_default_def haircut_item_def)
  have H': "H_ij (tables_of ?input') = (H_ij p)((i, j) \<mapsto> 1)"
    using k(1) by (simp only: h0 h1 last_wins_insert if_False)
  have g: "get_default (H_ij (tables_of ?input') v) 1 = get_default (H_ij p v) 1" for v
    using none by (simp add: H' get_default_def)
  have b: "build_model (tables_of ?input') = build_model p"
    by (rule build_model_haircut_cong)
      (simp_all add: g keyed_tables_of p, simp_all add: tables_of_def Let_def get_default_def)
  have ij: "I (tables_of ?input') = I p" "J (tables_of ?input') = J p"
    by (simp_all add: p tables_of_def Let_def get_default_def)
  have 1: "model_of ?input' = model_of input"
    by (simp add: model_of_def p' assms(1) b)
  have 2: "run S ?input' sp = run S input sp" for S sp
    by (rule run_model_cong[OF assms(1) p' ij b])
  from 1 2 show ?thesis by blast
qed

theorem default_haircut_is_one_witness:
  "model_of (capped_A\<lparr>haircut_matrix :=
       Some [\<lparr>h_asset_id = Some ''A1'', h_account_id = Some ''Acc1'', haircut = Some 1\<rparr>]\<rparr>)
     = model_of capped_A"
proof -
  have a: "get_default (haircut_matrix capped_A) [] = [] @ []"
    by (simp add: capped_A_def get_default_def)
  from default_haircut_is_one[OF parse_capped a, of "''A1''" "''Acc1''"] show ?thesis by simp
qed

subsection \<open>Duplicate entries\<close>

text \<open>
  C10. An input whose entries have all their fields parses, duplicates or not. The haircut
  of a pair in the table \<open>H_ij\<close> is that of the last entry of the haircut matrix with that
  pair, and the limit in \<open>L_ij\<close> is that of the last entry of the limit matrix; the program
  is built from these two tables.
\<close>

theorem last_duplicate_wins:
  assumes "missing_fields input = []"
  shows "\<exists>p. parse_input input = Inr p
    \<and> (\<forall>xs e ys. get_default (haircut_matrix input) [] = xs @ e # ys
          \<and> (\<forall>e'\<in>set ys. \<not> (h_asset_id e' = h_asset_id e \<and> h_account_id e' = h_account_id e))
        \<longrightarrow> H_ij p (the (h_asset_id e), the (h_account_id e)) = haircut e)
    \<and> (\<forall>xs e ys. get_default (limit_matrix input) [] = xs @ e # ys
          \<and> (\<forall>e'\<in>set ys. \<not> (l_asset_id e' = l_asset_id e \<and> l_account_id e' = l_account_id e))
        \<longrightarrow> L_ij p (the (l_asset_id e), the (l_account_id e)) = max_allocation e)
    \<and> build_model p =
        Inr \<lparr>variables = List.product (I p) (J p),
             objective = map (cost_term p) (List.product (I p) (J p)),
             constraints = map (collateral_sufficiency p) (J p) @ map (inventory_limit p) (I p)
               @ map (pairwise_cap p) (List.product (I p) (J p))\<rparr>"
proof -
  let ?p = "tables_of input"
  have p: "parse_input input = Inr ?p" by (rule parse_input_complete[OF assms])
  have h: "H_ij ?p (the (h_asset_id e), the (h_account_id e)) = haircut e"
    if eq: "get_default (haircut_matrix input) [] = xs @ e # ys"
      and nd: "\<forall>e'\<in>set ys. \<not> (h_asset_id e' = h_asset_id e \<and> h_account_id e' = h_account_id e)"
    for xs e ys
  proof -
    from assms eq have c: "\<forall>x\<in>set (xs @ e # ys). haircut_missing x = []"
      by (auto simp: missing_fields_def)
    then obtain a b v where e: "h_asset_id e = Some a" "h_account_id e = Some b" "haircut e = Some v"
      by (auto simp: haircut_missing_Nil)
    have "\<forall>x\<in>set ys. fst (haircut_item x) \<noteq> (a, b)"
    proof
      fix x assume x: "x \<in> set ys"
      with c have "haircut_missing x = []" by simp
      then obtain a' b' where "h_asset_id x = Some a'" "h_account_id x = Some b'"
        by (auto simp: haircut_missing_Nil)
      with nd x e show "fst (haircut_item x) \<noteq> (a, b)" by (auto simp: haircut_item_def)
    qed
    from key_notin[OF this] have "(a, b) \<notin> fst ` set (map haircut_item ys)" .
    from last_wins_last[OF this, of "map haircut_item xs" v]
    show ?thesis by (simp add: tables_of_def Let_def eq e haircut_item_def)
  qed
  have l: "L_ij ?p (the (l_asset_id e), the (l_account_id e)) = max_allocation e"
    if eq: "get_default (limit_matrix input) [] = xs @ e # ys"
      and nd: "\<forall>e'\<in>set ys. \<not> (l_asset_id e' = l_asset_id e \<and> l_account_id e' = l_account_id e)"
    for xs e ys
  proof -
    from assms eq have c: "\<forall>x\<in>set (xs @ e # ys). limit_missing x = []"
      by (auto simp: missing_fields_def)
    then obtain a b v where e: "l_asset_id e = Some a" "l_account_id e = Some b"
      "max_allocation e = Some v"
      by (auto simp: limit_missing_Nil)
    have "\<forall>x\<in>set ys. fst (limit_item x) \<noteq> (a, b)"
    proof
      fix x assume x: "x \<in> set ys"
      with c have "limit_missing x = []" by simp
      then obtain a' b' where "l_asset_id x = Some a'" "l_account_id x = Some b'"
        by (auto simp: limit_missing_Nil)
      with nd x e show "fst (limit_item x) \<noteq> (a, b)" by (auto simp: limit_item_def)
    qed
    from key_notin[OF this] have "(a, b) \<notin> fst ` set (map limit_item ys)" .
    from last_wins_last[OF this, of "map limit_item xs" v]
    show ?thesis by (simp add: tables_of_def Let_def eq e limit_item_def)
  qed
  from p h l parse_build[OF p] show ?thesis by blast
qed

theorem last_duplicate_wins_witness:
  "\<exists>p. parse_input duplicates = Inr p
     \<and> H_ij p (''A1'', ''Acc1'') = Some (4 / 5) \<and> L_ij p (''A1'', ''Acc1'') = Some 70"
proof -
  have m: "missing_fields duplicates = []"
    by (simp add: missing_fields_def duplicates_def asset_missing_def account_missing_def
        haircut_missing_def limit_missing_def get_default_def)
  let ?h1 = "\<lparr>h_asset_id = Some ''A1'', h_account_id = Some ''Acc1'', haircut = Some (1 / 2)\<rparr>"
  let ?h2 = "\<lparr>h_asset_id = Some ''A1'', h_account_id = Some ''Acc1'', haircut = Some (4 / 5)\<rparr>"
  let ?l1 = "\<lparr>l_asset_id = Some ''A1'', l_account_id = Some ''Acc1'', max_allocation = Some 10\<rparr>"
  let ?l2 = "\<lparr>l_asset_id = Some ''A1'', l_account_id = Some ''Acc1'', max_allocation = Some 70\<rparr>"
  have hm: "get_default (haircut_matrix duplicates) [] = [?h1] @ ?h2 # []"
    by (simp add: duplicates_def get_default_def)
  have lm: "get_default (limit_matrix duplicates) [] = [?l1] @ ?l2 # []"
    by (simp add: duplicates_def get_default_def)
  from last_duplicate_wins[OF m] obtain p where
    p: "parse_input duplicates = Inr p" and
    h: "\<And>xs e ys. get_default (haircut_matrix duplicates) [] = xs @ e # ys
          \<and> (\<forall>e'\<in>set ys. \<not> (h_asset_id e' = h_asset_id e \<and> h_account_id e' = h_account_id e))
        \<Longrightarrow> H_ij p (the (h_asset_id e), the (h_account_id e)) = haircut e" and
    l: "\<And>xs e ys. get_default (limit_matrix duplicates) [] = xs @ e # ys
          \<and> (\<forall>e'\<in>set ys. \<not> (l_asset_id e' = l_asset_id e \<and> l_account_id e' = l_account_id e))
        \<Longrightarrow> L_ij p (the (l_asset_id e), the (l_account_id e)) = max_allocation e"
    by blast
  from h[of "[?h1]" ?h2 "[]"] hm have 1: "H_ij p (''A1'', ''Acc1'') = Some (4 / 5)" by simp
  from l[of "[?l1]" ?l2 "[]"] lm have 2: "L_ij p (''A1'', ''Acc1'') = Some 70" by simp
  from p 1 2 show ?thesis by blast
qed

end
